theory Spec2Isabelle
  imports Complex_Main "HOL-Library.AList"
begin

section \<open>A shallow embedding of the film-catalogue bot (src/bot.py)\<close>

text \<open>
  The bot keeps a per-user list of watched films in one JSON document, asks a remote
  metadata service for search results, genres and recommendations, and throttles those calls
  with a sliding-window rate limiter. Every definition below embeds one function of
  \<^verbatim>\<open>src/bot.py\<close>; the line numbers in the comments refer to that file.

  Conventions of the embedding.
  \<^item> The clock (\<^verbatim>\<open>time.time()\<close>) is an input: each reading is a \<^typ>\<open>real\<close>.
  \<^item> A suspension point (\<^verbatim>\<open>await asyncio.sleep\<close>) splits a coroutine into the part
    before it and the part after it; the scheduler is a run over a list of events.
  \<^item> The data file is \<^verbatim>\<open>None\<close> while it does not exist and \<^verbatim>\<open>Some d\<close> when it holds
    the JSON document \<^verbatim>\<open>d\<close>; a JSON object is an association list in insertion order,
    as Python's \<^verbatim>\<open>dict\<close> is. File and network operations succeed or fail only as the
    inputs of the model say.
  \<^item> A reply of the remote service is an input of the handler that asks for it. The
    HTTP client, created on first use (lines 78, 127, 285), has no state in the model,
    and logging is left out. Each request waits for \<^verbatim>\<open>acquire()\<close> of the rate limiter
    first (lines 82, 130, 288, 390), which only delays it: the limiter is modelled on its
    own and the handlers without it.
  \<^item> The user-visible texts (Russian in the source) are constructors of a datatype,
    named after what the text says.
  \<^item> An exception that leaves a handler is the \<^verbatim>\<open>Inl\<close> of a sum.
\<close>

subsection \<open>Exceptions\<close>

datatype py_error = IndexError | ValueError | KeyError | AttributeError

subsection \<open>The rate limiter (lines 39-59)\<close>

record RateLimiter =
  max_requests :: int
  time_window :: real
  requests :: "real list"

text \<open>\<^verbatim>\<open>RateLimiter.__init__\<close>, lines 40-43.\<close>

definition RateLimiter_init :: "int \<Rightarrow> real \<Rightarrow> RateLimiter" where
  "RateLimiter_init m w = \<lparr>max_requests = m, time_window = w, requests = []\<rparr>"

text \<open>Line 59: the one limiter of the process, 8 requests per second.\<close>

definition tmdb_rate_limiter :: RateLimiter where
  "tmdb_rate_limiter = RateLimiter_init 8 1"

text \<open>
  \<^verbatim>\<open>acquire\<close>, lines 46-54: the part that runs before the coroutine may suspend. \<^verbatim>\<open>now\<close>
  is the clock reading of line 46. The list is pruned (line 48); when it is full, the wait
  until the oldest entry leaves the window is computed (line 52) and, if positive, slept
  (lines 53-54): the result carries that duration, \<^verbatim>\<open>None\<close> when the call does not sleep.
  \<^verbatim>\<open>self.requests[0]\<close> on an empty list raises \<^verbatim>\<open>IndexError\<close>.
\<close>

definition acquire_enter :: "RateLimiter \<Rightarrow> real \<Rightarrow> py_error + (RateLimiter \<times> real option)" where
  "acquire_enter rl now =
     (let rl1 = rl\<lparr>requests := filter (\<lambda>req_time. now - req_time < time_window rl) (requests rl)\<rparr>
      in if int (length (requests rl1)) \<ge> max_requests rl1
         then (case requests rl1 of
                 [] \<Rightarrow> Inl IndexError
               | r0 # _ \<Rightarrow>
                   (let wait_time = time_window rl1 - (now - r0)
                    in if wait_time > 0 then Inr (rl1, Some wait_time) else Inr (rl1, None)))
         else Inr (rl1, None))"

text \<open>\<^verbatim>\<open>acquire\<close>, line 56: the second clock reading \<^verbatim>\<open>t\<close> is appended.\<close>

definition acquire_record :: "RateLimiter \<Rightarrow> real \<Rightarrow> RateLimiter" where
  "acquire_record rl t = rl\<lparr>requests := requests rl @ [t]\<rparr>"

text \<open>
  Callers of the shared limiter under the cooperative scheduler. \<^verbatim>\<open>Start c now\<close>: caller
  \<^verbatim>\<open>c\<close> enters \<^verbatim>\<open>acquire\<close> and reads the clock (line 46). \<^verbatim>\<open>Finish c t\<close>: caller \<^verbatim>\<open>c\<close>
  reads the clock again and appends (line 56). A call that does not sleep has no suspension
  point, so its \<^verbatim>\<open>Finish\<close> is the next event (\<^verbatim>\<open>running\<close>); a call that sleeps is parked
  with its wake-up time (\<^verbatim>\<open>sleeping\<close>) and other callers may run meanwhile. The clock never
  goes back (\<^verbatim>\<open>t0\<close> is the last reading) and a sleep lasts at least as long as asked.
  The run is \<^verbatim>\<open>None\<close> when the events are not a run of the scheduler, or when a call raises.
\<close>

datatype event = Start nat real | Finish nat real

fun run_interleaved ::
  "RateLimiter \<Rightarrow> (nat \<times> real) list \<Rightarrow> nat option \<Rightarrow> real \<Rightarrow> event list \<Rightarrow> RateLimiter option" where
  "run_interleaved rl sleeping running t0 [] = Some rl"
| "run_interleaved rl sleeping running t0 (Start c now # evs) =
     (if running \<noteq> None \<or> map_of sleeping c \<noteq> None \<or> now < t0 then None
      else (case acquire_enter rl now of
              Inl e \<Rightarrow> None
            | Inr (rl1, None) \<Rightarrow> run_interleaved rl1 sleeping (Some c) now evs
            | Inr (rl1, Some d) \<Rightarrow> run_interleaved rl1 ((c, now + d) # sleeping) None now evs))"
| "run_interleaved rl sleeping running t0 (Finish c t # evs) =
     (if t < t0 then None
      else if running = Some c then run_interleaved (acquire_record rl t) sleeping None t evs
      else if running = None then
        (case map_of sleeping c of
           None \<Rightarrow> None
         | Some wake \<Rightarrow>
             if t < wake then None
             else run_interleaved (acquire_record rl t) (filter (\<lambda>p. fst p \<noteq> c) sleeping) None t evs)
      else None)"

text \<open>The timestamps recorded by a run, in the order of recording.\<close>

fun recorded :: "event list \<Rightarrow> real list" where
  "recorded [] = []"
| "recorded (Start c now # evs) = recorded evs"
| "recorded (Finish c t # evs) = t # recorded evs"

text \<open>A run without overlap: every call finishes before the next one starts.\<close>

fun sequential :: "event list \<Rightarrow> bool" where
  "sequential [] = True"
| "sequential (Start c now # Finish c' t # evs) = (c = c' \<and> sequential evs)"
| "sequential evs = False"

text \<open>
  The number of timestamps in the window \<^verbatim>\<open>[a, a + w)\<close>, and the property that no window
  of length \<^verbatim>\<open>w\<close> holds more than \<^verbatim>\<open>m\<close> of them.
\<close>

definition window_count :: "real \<Rightarrow> real \<Rightarrow> real list \<Rightarrow> nat" where
  "window_count w a ts = length (filter (\<lambda>t. a \<le> t \<and> t < a + w) ts)"

definition window_bounded :: "int \<Rightarrow> real \<Rightarrow> real list \<Rightarrow> bool" where
  "window_bounded m w ts = (\<forall>a. int (window_count w a ts) \<le> m)"

text \<open>
  Eight calls, one every tenth of a second, fill the window. Callers 8 and 9 arrive at 0.8
  and 0.9, both find the list full, both sleep until the entry of time 0 expires, and both
  record at time 1.
\<close>

definition burst :: "event list" where
  "burst = [Start 0 0, Finish 0 0, Start 1 (1/10), Finish 1 (1/10), Start 2 (2/10), Finish 2 (2/10),
            Start 3 (3/10), Finish 3 (3/10), Start 4 (4/10), Finish 4 (4/10), Start 5 (5/10), Finish 5 (5/10),
            Start 6 (6/10), Finish 6 (6/10), Start 7 (7/10), Finish 7 (7/10),
            Start 8 (8/10), Start 9 (9/10), Finish 8 1, Finish 9 1]"

text \<open>Two calls one after the other on a limiter of one request per second.\<close>

definition two_calls :: "event list" where
  "two_calls = [Start 0 0, Finish 0 0, Start 1 (1/2), Finish 1 1]"

subsection \<open>Strings\<close>

text \<open>
  A Python \<^verbatim>\<open>str\<close> is a \<^typ>\<open>string\<close>, one \<^typ>\<open>char\<close> for each code point (the model has
  the code points below 256). \<^verbatim>\<open>s.startswith(p)\<close>, \<^verbatim>\<open>s.split(sep)\<close> for a separator of
  one character, \<^verbatim>\<open>s.isdigit()\<close>, \<^verbatim>\<open>s.strip()\<close>, \<^verbatim>\<open>sep.join(xs)\<close>, \<^verbatim>\<open>str(n)\<close> and
  \<^verbatim>\<open>int(s)\<close>.
\<close>

definition startswith :: "string \<Rightarrow> string \<Rightarrow> bool" where
  "startswith s p = (take (length p) s = p)"

fun split_acc :: "char \<Rightarrow> string \<Rightarrow> string \<Rightarrow> string list" where
  "split_acc sep cur [] = [rev cur]"
| "split_acc sep cur (c # cs) =
     (if c = sep then rev cur # split_acc sep [] cs else split_acc sep (c # cur) cs)"

definition split :: "string \<Rightarrow> char \<Rightarrow> string list" where
  "split s sep = split_acc sep [] s"

definition is_ascii_digit :: "char \<Rightarrow> bool" where
  "is_ascii_digit c = (48 \<le> (of_char c :: nat) \<and> (of_char c :: nat) \<le> 57)"

text \<open>
  \<^verbatim>\<open>str.isdigit\<close> also accepts the superscript digits U+00B2, U+00B3 and U+00B9, which
  \<^verbatim>\<open>int\<close> rejects.
\<close>

definition isdigit :: "string \<Rightarrow> bool" where
  "isdigit s = (s \<noteq> [] \<and>
     list_all (\<lambda>c. is_ascii_digit c \<or> (of_char c :: nat) \<in> {178, 179, 185}) s)"

definition is_space :: "char \<Rightarrow> bool" where
  "is_space c = ((of_char c :: nat) \<in> {9, 10, 11, 12, 13, 28, 29, 30, 31, 32, 133, 160})"

definition strip :: "string \<Rightarrow> string" where
  "strip s = rev (dropWhile is_space (rev (dropWhile is_space s)))"

fun join :: "string \<Rightarrow> string list \<Rightarrow> string" where
  "join sep [] = []"
| "join sep [x] = x"
| "join sep (x # y # ys) = x @ sep @ join sep (y # ys)"

definition digit_char :: "nat \<Rightarrow> char" where
  "digit_char d = ''0123456789'' ! d"

fun str_nat :: "nat \<Rightarrow> string" where
  "str_nat n = (if n < 10 then [digit_char n] else str_nat (n div 10) @ [digit_char (n mod 10)])"

definition str :: "int \<Rightarrow> string" where
  "str i = (if i < 0 then CHR ''-'' # str_nat (nat (- i)) else str_nat (nat i))"

text \<open>
  \<^verbatim>\<open>int(s)\<close> in base 10: surrounding whitespace is dropped, one sign is allowed, then
  digits, with single underscores allowed between digits. \<^verbatim>\<open>None\<close> is \<^verbatim>\<open>ValueError\<close>.
\<close>

fun parse_digits :: "nat \<Rightarrow> string \<Rightarrow> nat option" where
  "parse_digits acc [] = Some acc"
| "parse_digits acc (c # cs) =
     (if is_ascii_digit c then parse_digits (10 * acc + ((of_char c :: nat) - 48)) cs
      else if c = CHR ''_'' then
        (case cs of
           [] \<Rightarrow> None
         | d # _ \<Rightarrow> if is_ascii_digit d then parse_digits acc cs else None)
      else None)"

definition parse_nat :: "string \<Rightarrow> nat option" where
  "parse_nat s =
     (case s of
        [] \<Rightarrow> None
      | c # _ \<Rightarrow> if is_ascii_digit c then parse_digits 0 s else None)"

definition py_int :: "string \<Rightarrow> int option" where
  "py_int s =
     (case strip s of
        [] \<Rightarrow> None
      | c # cs \<Rightarrow>
          if c = CHR ''-'' then map_option (\<lambda>n. - int n) (parse_nat cs)
          else if c = CHR ''+'' then map_option int (parse_nat cs)
          else map_option int (parse_nat (c # cs)))"

text \<open>
  Python's indexing and slicing of a list. \<^verbatim>\<open>xs[i]\<close> counts a negative index from the
  end and raises \<^verbatim>\<open>IndexError\<close> out of range: \<^verbatim>\<open>index_of xs i\<close> is the position read, or
  \<^verbatim>\<open>None\<close>. \<^verbatim>\<open>xs.pop(i)\<close> removes that position. \<^verbatim>\<open>xs[i:j]\<close> clamps both bounds.
\<close>

definition index_of :: "'a list \<Rightarrow> int \<Rightarrow> nat option" where
  "index_of xs i =
     (if i < 0
      then (if - i \<le> int (length xs) then Some (nat (int (length xs) + i)) else None)
      else (if i < int (length xs) then Some (nat i) else None))"

definition pop_at :: "'a list \<Rightarrow> nat \<Rightarrow> 'a list" where
  "pop_at xs j = take j xs @ drop (Suc j) xs"

definition slice_bound :: "nat \<Rightarrow> int \<Rightarrow> nat" where
  "slice_bound n i = (if i < 0 then nat (max (int n + i) 0) else min (nat i) n)"

definition slice :: "'a list \<Rightarrow> int \<Rightarrow> int \<Rightarrow> 'a list" where
  "slice xs i j =
     (let a = slice_bound (length xs) i; b = slice_bound (length xs) j
      in take (b - a) (drop a xs))"

definition enumerate :: "'a list \<Rightarrow> (int \<times> 'a) list" where
  "enumerate xs = zip (map int [0..<length xs]) xs"

subsection \<open>Data\<close>

text \<open>
  A saved film, as line 193 writes it, and a candidate: one object of the \<^verbatim>\<open>results\<close>
  array of the metadata service. The code reads \<^verbatim>\<open>id\<close> and \<^verbatim>\<open>title\<close> of a candidate by
  subscript and \<^verbatim>\<open>release_date\<close> and \<^verbatim>\<open>genre_ids\<close> with \<^verbatim>\<open>.get\<close>: the last two may be
  absent.
\<close>

record film =
  film_id :: int
  film_title :: string
  film_genres :: "string list"

record candidate =
  cand_id :: int
  cand_title :: string
  cand_release_date :: "string option"
  cand_genre_ids :: "int list option"

type_synonym films_doc = "(string \<times> film list) list"

type_synonym genres_map = "(int \<times> string) list"

text \<open>\<^verbatim>\<open>d.get(k, default)\<close>; \<^verbatim>\<open>d[k] = v\<close> is \<^const>\<open>AList.update\<close>.\<close>

definition dict_get :: "('k \<times> 'v) list \<Rightarrow> 'k \<Rightarrow> 'v \<Rightarrow> 'v" where
  "dict_get d k dflt = (case map_of d k of None \<Rightarrow> dflt | Some v \<Rightarrow> v)"

text \<open>
  A reply of the metadata service: \<^verbatim>\<open>Raised\<close> when the request, \<^verbatim>\<open>raise_for_status\<close> or
  the decoding of the body raises, \<^verbatim>\<open>Body\<close> otherwise. The requests a handler sends are
  logged in its outcome.
\<close>

datatype 'a reply = Raised | Body 'a

type_synonym genres_reply = "(nat \<times> (int \<times> string) list option) reply"

type_synonym results_reply = "candidate list option reply"

datatype request = GetGenres | GetSearch string | GetRecommendations int int

subsection \<open>Messages\<close>

datatype label =
    LblCandidate string string
  | LblDeleteTitle string
  | LblCancelDelete
  | LblDeleteFilm
  | LblShowUpdated
  | LblRecommended int string
  | LblBack
  | LblMore
  | LblClose

datatype button = Callback label string | Url label string

datatype markup = GlobalKeyboard | Inline "button list list" | NoMarkup

datatype msg =
    TxtFilmNotFound
  | TxtChooseFilm
  | TxtNoSearchData
  | TxtChoiceError
  | TxtAlreadyInList
  | TxtFilmAdded string string
  | TxtListEmpty
  | TxtYourFilms "film list"
  | TxtChooseDelete
  | TxtUpdatedList "film list"
  | TxtDeleteNotFound
  | TxtDeleted string
  | TxtWantUpdated
  | TxtListNowEmpty
  | TxtDeleteError
  | TxtRecsClosed
  | TxtOpenTmdb string
  | TxtUnknownChoice
  | TxtNoMoreRecs
  | TxtRecommendations string "(string \<times> string list) list"
  | TxtRecError
  | TxtSessionExpired

text \<open>
  \<^verbatim>\<open>query.answer()\<close>, \<^verbatim>\<open>message.reply_text\<close> and \<^verbatim>\<open>message.edit_text\<close>. The texts:
  \<^verbatim>\<open>TxtFilmNotFound\<close> line 136, \<^verbatim>\<open>TxtChooseFilm\<close> 147, \<^verbatim>\<open>TxtNoSearchData\<close> 164,
  \<^verbatim>\<open>TxtChoiceError\<close> 173, \<^verbatim>\<open>TxtAlreadyInList\<close> 184,
  \<^verbatim>\<open>TxtFilmAdded\<close> 198 (title, genres in brackets), \<^verbatim>\<open>TxtListEmpty\<close> 453, 495 and 530,
  \<^verbatim>\<open>TxtYourFilms\<close> 459-462 and 515-518 (the numbered list), \<^verbatim>\<open>TxtChooseDelete\<close> 498,
  \<^verbatim>\<open>TxtUpdatedList\<close> 533-536, \<^verbatim>\<open>TxtDeleteNotFound\<close> 550, \<^verbatim>\<open>TxtDeleted\<close> 568,
  \<^verbatim>\<open>TxtWantUpdated\<close> 574, \<^verbatim>\<open>TxtListNowEmpty\<close> 578, \<^verbatim>\<open>TxtDeleteError\<close> 583,
  \<^verbatim>\<open>TxtRecsClosed\<close> 248, \<^verbatim>\<open>TxtOpenTmdb\<close> 254, \<^verbatim>\<open>TxtUnknownChoice\<close> 272,
  \<^verbatim>\<open>TxtNoMoreRecs\<close> 307, \<^verbatim>\<open>TxtRecommendations\<close> 312-320 (the film's title, then title and
  genre names of each recommended film), \<^verbatim>\<open>TxtRecError\<close> 338, \<^verbatim>\<open>TxtSessionExpired\<close> 639.
\<close>

datatype action = Answer | ReplyText msg markup | EditText msg markup

subsection \<open>Conversation states and the state of the bot\<close>

text \<open>Lines 27-30; \<^verbatim>\<open>END\<close> is \<^verbatim>\<open>ConversationHandler.END\<close>.\<close>

datatype conv_state =
    ADD_TITLE | ADD_CHOICE
  | RECOMMEND_CHOOSE | RECOMMEND_FILM_PICK | RECOMMEND_GENRE_PICK
  | RECOMMEND_MORE_FILM | RECOMMEND_MORE_GENRE
  | LIST_SHOW | LIST_DELETE
  | END

text \<open>
  \<^verbatim>\<open>context.user_data\<close> of one user: each field is one key of the dictionary, \<^verbatim>\<open>None\<close>
  while the key is not set.
\<close>

record session =
  ud_add_title :: "string option"
  ud_add_results :: "candidate list option"
  ud_recommend_films :: "film list option"
  ud_recommend_film :: "film option"
  ud_film_page :: "int option"
  ud_recommend_genre_id :: "int option"
  ud_genre_page :: "int option"
  ud_list_films :: "film list option"

definition no_session :: session where
  "no_session = \<lparr>ud_add_title = None, ud_add_results = None, ud_recommend_films = None,
     ud_recommend_film = None, ud_film_page = None, ud_recommend_genre_id = None,
     ud_genre_page = None, ud_list_films = None\<rparr>"

text \<open>
  The data file (\<^verbatim>\<open>None\<close> while it does not exist), the genre cache of line 73 (\<^verbatim>\<open>None\<close>
  as in Python) and the session of every user.
\<close>

record bot_state =
  data_file :: "films_doc option"
  genre_cache :: "genres_map option"
  user_data :: "string \<Rightarrow> session"

definition fresh :: bot_state where
  "fresh = \<lparr>data_file = None, genre_cache = None, user_data = (\<lambda>u. no_session)\<rparr>"

text \<open>
  What a handler does: the messages it sends, the state it returns (\<^verbatim>\<open>None\<close> when the
  function returns nothing) and the requests it sends to the service.
\<close>

record outcome =
  actions :: "action list"
  next_state :: "conv_state option"
  sent :: "request list"

subsection \<open>The film store (lines 62-70)\<close>

definition load_films :: "films_doc option \<Rightarrow> films_doc" where
  "load_films file = (case file of None \<Rightarrow> [] | Some d \<Rightarrow> d)"

definition save_films :: "films_doc \<Rightarrow> films_doc option \<Rightarrow> films_doc option" where
  "save_films data file = Some data"


subsection \<open>The genre taxonomy (lines 73-90)\<close>

text \<open>The dictionary comprehension of line 85: a later entry of the same id wins.\<close>

definition genres_of :: "(int \<times> string) list \<Rightarrow> genres_map" where
  "genres_of gs = fold (\<lambda>g d. AList.update (fst g) (snd g) d) gs []"

text \<open>
  Python's truth value of the cache (line 76): \<^verbatim>\<open>None\<close> and the empty dictionary are false.
\<close>

definition populated :: "genres_map option \<Rightarrow> bool" where
  "populated cache = (case cache of None \<Rightarrow> False | Some g \<Rightarrow> g \<noteq> [])"

text \<open>
  \<^verbatim>\<open>get_genres\<close>: the mapping returned, the cache afterwards and the requests sent;
  \<^verbatim>\<open>fetch_genres\<close> is lines 81-90, where every exception is caught (line 88). The call of
  the rate limiter (line 82) delays the request and changes nothing else here.
\<close>

definition fetch_genres :: "genres_map option \<Rightarrow> genres_reply \<Rightarrow> genres_map \<times> genres_map option \<times> request list" where
  "fetch_genres cache greply =
     (case greply of
        Raised \<Rightarrow> ([], cache, [GetGenres])
      | Body (status, body) \<Rightarrow>
          if status = 200
          then (let genres = genres_of (case body of None \<Rightarrow> [] | Some gs \<Rightarrow> gs)
                in (genres, Some genres, [GetGenres]))
          else ([], cache, [GetGenres]))"

definition get_genres :: "genres_map option \<Rightarrow> genres_reply \<Rightarrow> genres_map \<times> genres_map option \<times> request list" where
  "get_genres cache greply =
     (case cache of
        None \<Rightarrow> fetch_genres cache greply
      | Some g \<Rightarrow> if g \<noteq> [] then (g, cache, []) else fetch_genres cache greply)"

subsection \<open>Adding a film (lines 120-204)\<close>

definition set_session :: "bot_state \<Rightarrow> string \<Rightarrow> session \<Rightarrow> bot_state" where
  "set_session st user_id ud = st\<lparr>user_data := (user_data st)(user_id := ud)\<rparr>"

text \<open>
  \<^verbatim>\<open>add_save_film\<close>, lines 176-204. Nothing in the \<^verbatim>\<open>try\<close> block raises on the data of
  this model, so the handler of lines 201-204 has no branch here.
\<close>

definition add_save_film ::
  "string \<Rightarrow> candidate \<Rightarrow> genres_reply \<Rightarrow> bot_state \<Rightarrow> outcome \<times> bot_state" where
  "add_save_film user_id film greply st =
     (let films = load_films (data_file st);
          user_films = dict_get films user_id []
      in if list_ex (\<lambda>f. film_id f = cand_id film) user_films
         then (\<lparr>actions = [ReplyText TxtAlreadyInList GlobalKeyboard], next_state = Some END,
                 sent = []\<rparr>, st)
         else
           (case get_genres (genre_cache st) greply of
              (genres, cache1, reqs) \<Rightarrow>
                (let genre_names = map (\<lambda>gid. dict_get genres gid [])
                                     (case cand_genre_ids film of None \<Rightarrow> [] | Some gs \<Rightarrow> gs);
                     genre_str = (if genre_names \<noteq> [] then '' ('' @ join '', '' genre_names @ '')''
                                  else []);
                     user_films1 = user_films @
                       [\<lparr>film_id = cand_id film, film_title = cand_title film,
                         film_genres = genre_names\<rparr>];
                     films1 = AList.update user_id user_films1 films
                 in (\<lparr>actions = [ReplyText (TxtFilmAdded (cand_title film) genre_str) GlobalKeyboard],
                       next_state = Some END, sent = reqs\<rparr>,
                     st\<lparr>data_file := save_films films1 (data_file st), genre_cache := cache1\<rparr>))))"

text \<open>
  \<^verbatim>\<open>add_title\<close>, lines 120-156. \<^verbatim>\<open>text\<close> is the message, \<^verbatim>\<open>sreply\<close> the reply to the
  search. The name \<^verbatim>\<open>httpx.RequestException\<close> of line 149 is not defined by the library
  (its class is \<^verbatim>\<open>RequestError\<close>): when the \<^verbatim>\<open>try\<close> block raises, evaluating that
  \<^verbatim>\<open>except\<close> clause raises \<^verbatim>\<open>AttributeError\<close>, which leaves the handler.
\<close>

definition candidate_button :: "int \<times> candidate \<Rightarrow> button list" where
  "candidate_button p =
     (case p of (i, film) \<Rightarrow>
        (let year = take 4 (case cand_release_date film of None \<Rightarrow> [] | Some d \<Rightarrow> d)
         in [Callback (LblCandidate (cand_title film) year) (str i)]))"

definition add_title ::
  "string \<Rightarrow> string \<Rightarrow> results_reply \<Rightarrow> genres_reply \<Rightarrow> bot_state
     \<Rightarrow> (py_error + outcome) \<times> bot_state" where
  "add_title user_id text sreply greply st =
     (let title = strip text;
          st1 = set_session st user_id ((user_data st user_id)\<lparr>ud_add_title := Some title\<rparr>)
      in case sreply of
           Raised \<Rightarrow> (Inl AttributeError, st1)
         | Body b \<Rightarrow>
             (let results = (case b of None \<Rightarrow> [] | Some rs \<Rightarrow> rs)
              in if results = []
                 then (Inr \<lparr>actions = [ReplyText TxtFilmNotFound GlobalKeyboard],
                            next_state = Some ADD_TITLE, sent = [GetSearch title]\<rparr>, st1)
                 else if length results = 1
                 then (case add_save_film user_id (results ! 0) greply st1 of
                         (out, st2) \<Rightarrow> (Inr (out\<lparr>sent := GetSearch title # sent out\<rparr>), st2))
                 else
                   (let keyboard = map candidate_button (enumerate (take 5 results));
                        st2 = set_session st1 user_id
                                ((user_data st1 user_id)\<lparr>ud_add_results := Some results\<rparr>)
                    in (Inr \<lparr>actions = [ReplyText TxtChooseFilm (Inline keyboard)],
                              next_state = Some ADD_CHOICE, sent = [GetSearch title]\<rparr>, st2))))"

text \<open>
  \<^verbatim>\<open>add_choice\<close>, lines 158-174: \<^verbatim>\<open>ValueError\<close> of \<^verbatim>\<open>int\<close> and \<^verbatim>\<open>IndexError\<close> of the
  subscript are caught at line 171.
\<close>

definition choice_error :: outcome where
  "choice_error = \<lparr>actions = [Answer, EditText TxtChoiceError NoMarkup], next_state = Some END,
                    sent = []\<rparr>"

definition add_choice :: "string \<Rightarrow> string \<Rightarrow> genres_reply \<Rightarrow> bot_state \<Rightarrow> outcome \<times> bot_state" where
  "add_choice user_id data greply st =
     (case ud_add_results (user_data st user_id) of
        None \<Rightarrow>
          (\<lparr>actions = [Answer, EditText TxtNoSearchData NoMarkup], next_state = Some END,
             sent = []\<rparr>, st)
      | Some results \<Rightarrow>
          (case py_int data of
             None \<Rightarrow> (choice_error, st)
           | Some idx \<Rightarrow>
               (case index_of results idx of
                  None \<Rightarrow> (choice_error, st)
                | Some j \<Rightarrow>
                    (case add_save_film user_id (results ! j) greply st of
                       (out, st1) \<Rightarrow> (out\<lparr>actions := Answer # actions out\<rparr>, st1)))))"

subsection \<open>Listing and deleting (lines 449-468 and 487-584)\<close>

definition delete_film_markup :: markup where
  "delete_film_markup = Inline [[Callback LblDeleteFilm ''show_delete_interface'']]"

text \<open>\<^verbatim>\<open>list_films\<close>, lines 449-468.\<close>

definition list_films :: "string \<Rightarrow> bot_state \<Rightarrow> outcome \<times> bot_state" where
  "list_films user_id st =
     (let films = dict_get (load_films (data_file st)) user_id []
      in if films = []
         then (\<lparr>actions = [ReplyText TxtListEmpty GlobalKeyboard], next_state = Some END,
                 sent = []\<rparr>, st)
         else (\<lparr>actions = [ReplyText (TxtYourFilms films) delete_film_markup],
                 next_state = Some LIST_SHOW, sent = []\<rparr>,
               set_session st user_id ((user_data st user_id)\<lparr>ud_list_films := Some films\<rparr>)))"

definition delete_button :: "int \<times> film \<Rightarrow> button list" where
  "delete_button p =
     (case p of (i, f) \<Rightarrow>
        (let button_text = (if length (film_title f) > 30 then take 30 (film_title f) @ ''...''
                            else film_title f)
         in [Callback (LblDeleteTitle button_text) (''delete_'' @ str i)]))"

text \<open>
  \<^verbatim>\<open>list_delete_film\<close>, lines 487-584. \<^verbatim>\<open>films\<close> of line 547 is the list object held by
  the session, so \<^verbatim>\<open>films.pop\<close> (line 558) changes the session as well. \<^verbatim>\<open>ValueError\<close>
  (of \<^verbatim>\<open>int\<close>) and \<^verbatim>\<open>IndexError\<close> (of the subscripts) are caught at line 581. A payload of
  none of the four kinds reaches the end of the function, which returns nothing.
\<close>

text \<open>\<^verbatim>\<open>context.user_data.get('list_films', [])\<close>, lines 493, 514, 527 and 547.\<close>

definition session_films :: "bot_state \<Rightarrow> string \<Rightarrow> film list" where
  "session_films st user_id =
     (case ud_list_films (user_data st user_id) of None \<Rightarrow> [] | Some fs \<Rightarrow> fs)"

definition delete_error :: outcome where
  "delete_error = \<lparr>actions = [Answer, ReplyText TxtDeleteError GlobalKeyboard],
                    next_state = Some END, sent = []\<rparr>"

definition list_delete_film :: "string \<Rightarrow> string \<Rightarrow> bot_state \<Rightarrow> outcome \<times> bot_state" where
  "list_delete_film user_id data st =
     (let ud = user_data st user_id;
          films = session_films st user_id
      in if data = ''show_delete_interface'' then
           (if films = []
            then (\<lparr>actions = [Answer, ReplyText TxtListEmpty GlobalKeyboard],
                    next_state = Some END, sent = []\<rparr>, st)
            else (\<lparr>actions = [Answer, EditText TxtChooseDelete
                      (Inline (map delete_button (enumerate films) @
                               [[Callback LblCancelDelete ''cancel_delete'']]))],
                    next_state = Some LIST_SHOW, sent = []\<rparr>, st))
         else if data = ''cancel_delete'' then
           (\<lparr>actions = [Answer, EditText (TxtYourFilms films) delete_film_markup],
              next_state = Some LIST_SHOW, sent = []\<rparr>, st)
         else if data = ''show_updated_list'' then
           (if films = []
            then (\<lparr>actions = [Answer, ReplyText TxtListEmpty GlobalKeyboard],
                    next_state = Some END, sent = []\<rparr>, st)
            else (\<lparr>actions = [Answer, EditText (TxtUpdatedList films) delete_film_markup],
                    next_state = Some LIST_SHOW, sent = []\<rparr>, st))
         else if startswith data ''delete_'' then
           (case split data CHR ''_'' of
              _ # part # _ \<Rightarrow>
                (case py_int part of
                   None \<Rightarrow> (delete_error, st)
                 | Some film_index \<Rightarrow>
                     if film_index \<ge> int (length films)
                     then (\<lparr>actions = [Answer, ReplyText TxtDeleteNotFound GlobalKeyboard],
                             next_state = Some END, sent = []\<rparr>, st)
                     else
                       (case index_of films film_index of
                          None \<Rightarrow> (delete_error, st)
                        | Some j \<Rightarrow>
                            (let film_to_delete = films ! j;
                                 films1 = pop_at films j;
                                 all_films = AList.update user_id films1 (load_films (data_file st));
                                 st1 = (set_session st user_id (ud\<lparr>ud_list_films := Some films1\<rparr>))
                                         \<lparr>data_file := save_films all_films (data_file st)\<rparr>;
                                 deleted = ReplyText (TxtDeleted (film_title film_to_delete)) GlobalKeyboard
                             in if films1 \<noteq> []
                                then (\<lparr>actions = [Answer, deleted,
                                          ReplyText TxtWantUpdated
                                            (Inline [[Callback LblShowUpdated ''show_updated_list'']])],
                                        next_state = Some LIST_SHOW, sent = []\<rparr>, st1)
                                else (\<lparr>actions = [Answer, deleted,
                                          ReplyText TxtListNowEmpty GlobalKeyboard],
                                        next_state = Some END, sent = []\<rparr>, st1))))
            | _ \<Rightarrow> (delete_error, st))
         else (\<lparr>actions = [Answer], next_state = None, sent = []\<rparr>, st))"

subsection \<open>Recommendations by film (lines 243-341)\<close>

definition close_markup :: markup where
  "close_markup = Inline [[Callback LblClose ''close_recommendations'']]"

text \<open>
  Lines 274-310 up to the choice of the films of the page: the page of the service that is
  requested, the offset in its results, and the films shown, given the results of that page
  and the ids of the films the user has saved.
\<close>

definition tmdb_page_of :: "int \<Rightarrow> int" where
  "tmdb_page_of bot_page = (bot_page - 1) div 4 + 1"

definition tmdb_results_offset_of :: "int \<Rightarrow> int" where
  "tmdb_results_offset_of bot_page = ((bot_page - 1) mod 4) * 5"

definition page_films_of :: "int \<Rightarrow> int list \<Rightarrow> candidate list \<Rightarrow> candidate list" where
  "page_films_of bot_page user_films results =
     (let items_per_page = 5;
          new_films = filter (\<lambda>f. cand_id f \<notin> set user_films) results;
          start_idx = tmdb_results_offset_of bot_page;
          end_idx = start_idx + items_per_page;
          page_films = slice new_films start_idx end_idx
      in if page_films = [] then slice results start_idx end_idx else page_films)"

text \<open>Lines 312-334: the text and the keyboard of a page of recommendations.\<close>

definition rec_line :: "genres_map \<Rightarrow> candidate \<Rightarrow> string \<times> string list" where
  "rec_line genres_dict rec_film =
     (let genres = (case cand_genre_ids rec_film of None \<Rightarrow> [] | Some gs \<Rightarrow> gs)
      in (cand_title rec_film,
          map (\<lambda>gid. dict_get genres_dict gid [])
            (filter (\<lambda>gid. dict_get genres_dict gid [] \<noteq> []) genres)))"

definition rec_button :: "int \<times> candidate \<Rightarrow> button list" where
  "rec_button p =
     (case p of (i, rec_film) \<Rightarrow>
        [Url (LblRecommended (i + 1) (cand_title rec_film))
           (''https://www.themoviedb.org/movie/'' @ str (cand_id rec_film))])"

definition film_nav_buttons :: "int \<Rightarrow> button list" where
  "film_nav_buttons bot_page =
     (if bot_page > 1 then [Callback LblBack (''film_page_'' @ str (bot_page - 1))] else []) @
     [Callback LblMore ''more_film'', Callback LblClose ''close_recommendations'']"

text \<open>
  Lines 274-341, after \<^verbatim>\<open>query.answer()\<close>: \<^verbatim>\<open>recs\<close> gives the reply of the service to a
  request for the recommendations of a film id at a page. Every exception of the block is
  caught at line 336.
\<close>

definition film_recommendations ::
  "string \<Rightarrow> film \<Rightarrow> int \<Rightarrow> (int \<Rightarrow> int \<Rightarrow> results_reply) \<Rightarrow> genres_reply \<Rightarrow> bot_state
     \<Rightarrow> outcome \<times> bot_state" where
  "film_recommendations user_id film bot_page recs greply st =
     (let user_films = map film_id (dict_get (load_films (data_file st)) user_id []);
          tmdb_page = tmdb_page_of bot_page;
          req = GetRecommendations (film_id film) tmdb_page
      in case recs (film_id film) tmdb_page of
           Raised \<Rightarrow>
             (\<lparr>actions = [Answer, EditText TxtRecError close_markup],
                next_state = Some RECOMMEND_MORE_FILM, sent = [req]\<rparr>, st)
         | Body b \<Rightarrow>
             (let results = (case b of None \<Rightarrow> [] | Some rs \<Rightarrow> rs);
                  page_films = page_films_of bot_page user_films results
              in if page_films = []
                 then (\<lparr>actions = [Answer, EditText TxtNoMoreRecs close_markup],
                         next_state = Some RECOMMEND_MORE_FILM, sent = [req]\<rparr>, st)
                 else
                   (case get_genres (genre_cache st) greply of
                      (genres_dict, cache1, reqs) \<Rightarrow>
                        (\<lparr>actions = [Answer,
                             EditText (TxtRecommendations (film_title film)
                                         (map (rec_line genres_dict) page_films))
                               (Inline (map rec_button (enumerate page_films) @
                                        [film_nav_buttons bot_page]))],
                           next_state = Some RECOMMEND_MORE_FILM, sent = req # reqs\<rparr>,
                         st\<lparr>genre_cache := cache1\<rparr>))))"

text \<open>
  \<^verbatim>\<open>recommend_film_pick\<close>, lines 243-341. The \<^verbatim>\<open>int\<close> of line 257 and the subscripts
  \<^verbatim>\<open>context.user_data['recommend_film']\<close> (lines 259 and 264) are outside every \<^verbatim>\<open>try\<close>;
  line 271 catches \<^verbatim>\<open>ValueError\<close> and \<^verbatim>\<open>IndexError\<close> but not the \<^verbatim>\<open>KeyError\<close> of a
  missing \<^verbatim>\<open>recommend_films\<close>.
\<close>

definition recommend_film_pick ::
  "string \<Rightarrow> string \<Rightarrow> (int \<Rightarrow> int \<Rightarrow> results_reply) \<Rightarrow> genres_reply \<Rightarrow> bot_state
     \<Rightarrow> (py_error + outcome) \<times> bot_state" where
  "recommend_film_pick user_id data recs greply st =
     (let ud = user_data st user_id
      in if data = ''close_recommendations'' then
           (Inr \<lparr>actions = [Answer, EditText TxtRecsClosed NoMarkup], next_state = Some END,
                  sent = []\<rparr>, st)
         else if startswith data ''add_rec_'' then
           (case split data CHR ''_'' of
              _ # _ # film_id_str # _ \<Rightarrow>
                (Inr \<lparr>actions = [Answer, EditText (TxtOpenTmdb
                          (''https://www.themoviedb.org/movie/'' @ film_id_str)) NoMarkup],
                       next_state = Some END, sent = []\<rparr>, st)
            | _ \<Rightarrow> (Inl IndexError, st))
         else if startswith data ''film_page_'' then
           (case split data CHR ''_'' of
              _ # _ # page_str # _ \<Rightarrow>
                (case py_int page_str of
                   None \<Rightarrow> (Inl ValueError, st)
                 | Some page \<Rightarrow>
                     (let st1 = set_session st user_id (ud\<lparr>ud_film_page := Some page\<rparr>)
                      in case ud_recommend_film ud of
                           None \<Rightarrow> (Inl KeyError, st1)
                         | Some film \<Rightarrow>
                             (case film_recommendations user_id film page recs greply st1 of
                                (out, st2) \<Rightarrow> (Inr out, st2))))
            | _ \<Rightarrow> (Inl IndexError, st))
         else if data = ''more_film'' then
           (let page = (case ud_film_page ud of None \<Rightarrow> 1 | Some p \<Rightarrow> p) + 1;
                st1 = set_session st user_id (ud\<lparr>ud_film_page := Some page\<rparr>)
            in case ud_recommend_film ud of
                 None \<Rightarrow> (Inl KeyError, st1)
               | Some film \<Rightarrow>
                   (case film_recommendations user_id film page recs greply st1 of
                      (out, st2) \<Rightarrow> (Inr out, st2)))
         else
           (case py_int data of
              None \<Rightarrow>
                (Inr \<lparr>actions = [Answer, EditText TxtUnknownChoice NoMarkup], next_state = Some END,
                       sent = []\<rparr>, st)
            | Some idx \<Rightarrow>
                (case ud_recommend_films ud of
                   None \<Rightarrow> (Inl KeyError, st)
                 | Some films \<Rightarrow>
                     (case index_of films idx of
                        None \<Rightarrow>
                          (Inr \<lparr>actions = [Answer, EditText TxtUnknownChoice NoMarkup],
                                 next_state = Some END, sent = []\<rparr>, st)
                      | Some j \<Rightarrow>
                          (let film = films ! j;
                               st1 = set_session st user_id
                                       (ud\<lparr>ud_recommend_film := Some film, ud_film_page := Some 1\<rparr>)
                           in case film_recommendations user_id film 1 recs greply st1 of
                                (out, st2) \<Rightarrow> (Inr out, st2))))))"

subsection \<open>The router (lines 620-640)\<close>

text \<open>
  \<^verbatim>\<open>universal_callback_handler\<close> awaits one of five handlers or answers itself: the
  result names the handler, or is the outcome of lines 638-640.
\<close>

datatype routed =
    To_list_delete_film
  | To_recommend_choose
  | To_recommend_film_pick
  | To_recommend_genre_pick
  | To_add_choice
  | Answered outcome

definition universal_callback_handler :: "string \<Rightarrow> session \<Rightarrow> routed" where
  "universal_callback_handler data ud =
     (if startswith data ''delete_'' \<or>
         data \<in> set [''show_delete_interface'', ''cancel_delete'', ''show_updated_list'']
      then To_list_delete_film
      else if data \<in> set [''by_film'', ''by_genre'']
      then To_recommend_choose
      else if startswith data ''film_page_'' \<or> data = ''more_film'' \<or>
              data = ''close_recommendations'' \<or> startswith data ''add_rec_'' \<or>
              (isdigit data \<and> ud_recommend_films ud \<noteq> None)
      then To_recommend_film_pick
      else if startswith data ''genre_page_'' \<or> data = ''more_genre'' \<or>
              startswith data ''add_rec_'' \<or> data = ''close_recommendations'' \<or>
              (isdigit data \<and> ud_recommend_genre_id ud \<noteq> None)
      then To_recommend_genre_pick
      else if isdigit data \<and> ud_add_results ud \<noteq> None
      then To_add_choice
      else Answered \<lparr>actions = [Answer, EditText TxtSessionExpired NoMarkup],
                      next_state = Some END, sent = []\<rparr>)"

text \<open>
  The payloads as the specification groups them, and its routing: the first group of the
  fixed order that the payload belongs to, or the answer that the session has expired.
\<close>

definition delete_related :: "string \<Rightarrow> bool" where
  "delete_related data =
     (startswith data ''delete_'' \<or> data = ''show_delete_interface'' \<or> data = ''cancel_delete'' \<or>
      data = ''show_updated_list'')"

definition mode_choice :: "string \<Rightarrow> bool" where
  "mode_choice data = (data = ''by_film'' \<or> data = ''by_genre'')"

definition film_recommendation_payload :: "session \<Rightarrow> string \<Rightarrow> bool" where
  "film_recommendation_payload ud data =
     (startswith data ''film_page_'' \<or> data = ''more_film'' \<or> data = ''close_recommendations'' \<or>
      startswith data ''add_rec_'' \<or> (isdigit data \<and> ud_recommend_films ud \<noteq> None))"

definition genre_recommendation_payload :: "session \<Rightarrow> string \<Rightarrow> bool" where
  "genre_recommendation_payload ud data =
     (startswith data ''genre_page_'' \<or> data = ''more_genre'' \<or>
      (isdigit data \<and> ud_recommend_genre_id ud \<noteq> None))"

definition add_pick_payload :: "session \<Rightarrow> string \<Rightarrow> bool" where
  "add_pick_payload ud data = (isdigit data \<and> ud_add_results ud \<noteq> None)"

definition session_expired :: outcome where
  "session_expired = \<lparr>actions = [Answer, EditText TxtSessionExpired NoMarkup],
                       next_state = Some END, sent = []\<rparr>"

definition precedence :: "session \<Rightarrow> ((string \<Rightarrow> bool) \<times> routed) list" where
  "precedence ud =
     [(delete_related, To_list_delete_film),
      (mode_choice, To_recommend_choose),
      (film_recommendation_payload ud, To_recommend_film_pick),
      (genre_recommendation_payload ud, To_recommend_genre_pick),
      (add_pick_payload ud, To_add_choice)]"

definition route_by_precedence :: "string \<Rightarrow> session \<Rightarrow> routed" where
  "route_by_precedence data ud =
     (case find (\<lambda>p. fst p data) (precedence ud) of
        Some p \<Rightarrow> snd p
      | None \<Rightarrow> Answered session_expired)"

subsection \<open>The bot as a transition system\<close>

text \<open>
  One update is handled at a time. The updates are those of the handlers above: a title
  typed in state \<^verbatim>\<open>ADD_TITLE\<close>, a button of the list of candidates, the command \<^verbatim>\<open>/list\<close>,
  a button of the list conversation and a button of the recommendations by film. Each
  carries the user and the replies the service would give.
\<close>

datatype update =
    Title_typed string string results_reply genres_reply
  | Choice_button string string genres_reply
  | List_command string
  | List_button string string
  | Film_button string string "int \<Rightarrow> int \<Rightarrow> results_reply" genres_reply

fun handle :: "bot_state \<Rightarrow> update \<Rightarrow> bot_state" where
  "handle st (Title_typed user_id text sreply greply) = snd (add_title user_id text sreply greply st)"
| "handle st (Choice_button user_id data greply) = snd (add_choice user_id data greply st)"
| "handle st (List_command user_id) = snd (list_films user_id st)"
| "handle st (List_button user_id data) = snd (list_delete_film user_id data st)"
| "handle st (Film_button user_id data recs greply) =
     snd (recommend_film_pick user_id data recs greply st)"

definition run :: "bot_state \<Rightarrow> update list \<Rightarrow> bot_state" where
  "run st ups = foldl handle st ups"





definition deleted :: "film \<Rightarrow> film list \<Rightarrow> outcome" where
  "deleted f rest =
     (if rest \<noteq> []
      then \<lparr>actions = [Answer, ReplyText (TxtDeleted (film_title f)) GlobalKeyboard,
                        ReplyText TxtWantUpdated (Inline [[Callback LblShowUpdated ''show_updated_list'']])],
             next_state = Some LIST_SHOW, sent = []\<rparr>
      else \<lparr>actions = [Answer, ReplyText (TxtDeleted (film_title f)) GlobalKeyboard,
                        ReplyText TxtListNowEmpty GlobalKeyboard],
             next_state = Some END, sent = []\<rparr>)"

definition delete_index :: "string \<Rightarrow> int option" where
  "delete_index data =
     (if startswith data ''delete_''
      then (case split data CHR ''_'' of _ # part # _ \<Rightarrow> py_int part | _ \<Rightarrow> None)
      else None)"

subsection \<open>Sample data\<close>

definition dune :: candidate where
  "dune = \<lparr>cand_id = 438631, cand_title = ''Dune'', cand_release_date = Some ''2021-09-15'',
     cand_genre_ids = Some [878, 12]\<rparr>"

definition alien :: candidate where
  "alien = \<lparr>cand_id = 348, cand_title = ''Alien'', cand_release_date = Some ''1979-05-25'',
     cand_genre_ids = Some [27, 878]\<rparr>"

definition heat :: candidate where
  "heat = \<lparr>cand_id = 949, cand_title = ''Heat'', cand_release_date = None,
     cand_genre_ids = None\<rparr>"

definition genres_ok :: genres_reply where
  "genres_ok = Body (200, Some [(878, ''SF''), (12, ''Adventure''), (27, ''Horror'')])"

definition saved :: "candidate \<Rightarrow> string list \<Rightarrow> film" where
  "saved c gs = \<lparr>film_id = cand_id c, film_title = cand_title c, film_genres = gs\<rparr>"

text \<open>
  User 7 has typed three titles; the last search had two results, of which the user has
  picked the first. Then the user has asked for the list.
\<close>

definition three_films :: "film list" where
  "three_films = [saved dune [''SF'', ''Adventure''], saved alien [''Horror'', ''SF''], saved heat []]"

definition listed :: bot_state where
  "listed = run fresh
     [Title_typed ''7'' ''Dune'' (Body (Some [dune])) genres_ok,
      Title_typed ''7'' ''Alien'' (Body (Some [alien])) genres_ok,
      Title_typed ''7'' ''Heat'' (Body (Some [heat, dune])) genres_ok,
      Choice_button ''7'' ''0'' genres_ok, List_command ''7'']"

text \<open>Twenty results of the service, with the ids 1 to 20.\<close>

definition numbered :: "int \<Rightarrow> candidate" where
  "numbered i = \<lparr>cand_id = i, cand_title = ''Film '' @ str i, cand_release_date = None,
     cand_genre_ids = None\<rparr>"

definition twenty :: "candidate list" where
  "twenty = map numbered [1, 2, 3, 4, 5, 6, 7, 8, 9, 10, 11, 12, 13, 14, 15, 16, 17, 18, 19, 20]"


section \<open>Verification\<close>

section \<open>The rate limiter\<close>

lemma filter_mono_length:
  "(\<And>y. y \<in> set xs \<Longrightarrow> Q y \<Longrightarrow> P y) \<Longrightarrow> length (filter Q xs) \<le> length (filter P xs)"
  by (induction xs) auto

lemma filter_strict_less:
  "x \<in> set xs \<Longrightarrow> \<not> Q x \<Longrightarrow> P x \<Longrightarrow> (\<And>y. y \<in> set xs \<Longrightarrow> Q y \<Longrightarrow> P y)
    \<Longrightarrow> length (filter Q xs) < length (filter P xs)"
proof (induction xs)
  case Nil then show ?case by simp
next
  case (Cons y ys)
  have le: "length (filter Q ys) \<le> length (filter P ys)"
    by (rule filter_mono_length) (use Cons.prems(4) in auto)
  show ?case
  proof (cases "x = y")
    case True
    then show ?thesis using Cons.prems le by simp
  next
    case False
    then have "length (filter Q ys) < length (filter P ys)" using Cons by auto
    then show ?thesis using Cons.prems(4)[of y] by auto
  qed
qed

lemma window_bounded_nonpos:
  "w \<le> 0 \<Longrightarrow> 0 \<le> m \<Longrightarrow> window_bounded m w ts"
proof -
  assume w: "w \<le> 0" and m: "0 \<le> m"
  have "filter (\<lambda>t. a \<le> t \<and> t < a + w) ts = []" for a
    using w by (induction ts) auto
  then show ?thesis using m by (simp add: window_bounded_def window_count_def)
qed

lemma window_bounded_snoc:
  assumes W: "0 < w"
    and hb: "window_bounded m w h"
    and few: "int (length (filter (\<lambda>t. t2 - t < w) h)) < m"
    and le: "\<forall>t\<in>set h. t \<le> t2"
  shows "window_bounded m w (h @ [t2])"
  unfolding window_bounded_def window_count_def
proof
  fix a
  show "int (length (filter (\<lambda>t. a \<le> t \<and> t < a + w) (h @ [t2]))) \<le> m"
  proof (cases "a \<le> t2 \<and> t2 < a + w")
    case False
    then show ?thesis using hb by (auto simp: window_bounded_def window_count_def)
  next
    case True
    have "length (filter (\<lambda>t. a \<le> t \<and> t < a + w) h) \<le> length (filter (\<lambda>t. t2 - t < w) h)"
      by (rule filter_mono_length) (use True in auto)
    then show ?thesis using True few by simp
  qed
qed

lemma acquire_step:
  assumes W: "0 < w" and M: "0 < m"
    and r: "r = filter (\<lambda>t. c - t < w) h"
    and c: "c \<le> now"
    and h_le: "\<forall>t\<in>set h. t \<le> now"
    and hb: "window_bounded m w h"
    and enter: "acquire_enter \<lparr>max_requests = m, time_window = w, requests = r\<rparr> now = Inr (rl1, d)"
    and t2: "now + (case d of None \<Rightarrow> 0 | Some x \<Rightarrow> x) \<le> t2"
  shows "window_bounded m w (h @ [t2]) \<and>
         acquire_record rl1 t2 =
           \<lparr>max_requests = m, time_window = w, requests = filter (\<lambda>t. now - t < w) (h @ [t2])\<rparr> \<and>
         (\<forall>t\<in>set (h @ [t2]). t \<le> t2)"
proof -
  let ?r1 = "filter (\<lambda>t. now - t < w) r"
  have r1_h: "?r1 = filter (\<lambda>t. now - t < w) h"
    unfolding r filter_filter by (rule filter_cong) (use c in auto)
  have rl1: "rl1 = \<lparr>max_requests = m, time_window = w, requests = ?r1\<rparr>"
    using enter by (auto simp: acquire_enter_def Let_def split: if_splits list.splits)
  have now_t2: "now \<le> t2"
  proof (cases d)
    case None then show ?thesis using t2 by simp
  next
    case (Some x)
    then have "0 < x" using enter by (auto simp: acquire_enter_def Let_def split: if_splits list.splits)
    then show ?thesis using t2 Some by simp
  qed
  have le2: "\<forall>t\<in>set h. t \<le> t2" using h_le now_t2 by auto
  have rec: "acquire_record rl1 t2 =
           \<lparr>max_requests = m, time_window = w, requests = filter (\<lambda>t. now - t < w) (h @ [t2])\<rparr>"
    using W now_t2 by (simp add: rl1 acquire_record_def r1_h)
  have few: "int (length (filter (\<lambda>t. t2 - t < w) h)) < m"
  proof (cases "int (length ?r1) \<ge> m")
    case False
    have "length (filter (\<lambda>t. t2 - t < w) h) \<le> length (filter (\<lambda>t. now - t < w) h)"
      by (rule filter_mono_length) (use now_t2 in auto)
    then show ?thesis using False r1_h by simp
  next
    case True
    then obtain r0 rest where r0: "?r1 = r0 # rest"
      using M by (cases ?r1) auto
    have r0_in: "r0 \<in> set h" and r0_w: "now - r0 < w"
    proof -
      have "r0 \<in> set (filter (\<lambda>t. now - t < w) h)" using r0 r1_h by simp
      then show "r0 \<in> set h" and "now - r0 < w" by auto
    qed
    have d: "d = Some (w - (now - r0))"
      using enter True r0 r0_w by (auto simp: acquire_enter_def Let_def split: if_splits list.splits)
    then have t2': "r0 + w \<le> t2" using t2 by simp
    have "length (filter (\<lambda>t. t2 - t < w) h) < length (filter (\<lambda>t. r0 \<le> t \<and> t < r0 + w) h)"
    proof (rule filter_strict_less[OF r0_in])
      show "\<not> t2 - r0 < w" using t2' by simp
      show "r0 \<le> r0 \<and> r0 < r0 + w" using W by simp
    next
      fix y assume y: "y \<in> set h" "t2 - y < w"
      then have "r0 < y" using t2' by simp
      moreover have "y \<le> now" using y h_le by simp
      ultimately show "r0 \<le> y \<and> y < r0 + w" using r0_w by simp
    qed
    moreover have "int (length (filter (\<lambda>t. r0 \<le> t \<and> t < r0 + w) h)) \<le> m"
      using hb by (simp add: window_bounded_def window_count_def)
    ultimately show ?thesis by simp
  qed
  show ?thesis using window_bounded_snoc[OF W hb few le2] rec le2 by simp
qed


lemma sequential_run_bounded:
  assumes W: "0 < w" and M: "0 < m"
  shows "sequential evs \<Longrightarrow>
    run_interleaved \<lparr>max_requests = m, time_window = w, requests = filter (\<lambda>t. c - t < w) h\<rparr>
       [] None tp evs = Some rlf \<Longrightarrow>
    c \<le> tp \<Longrightarrow> \<forall>t\<in>set h. t \<le> tp \<Longrightarrow> window_bounded m w h \<Longrightarrow>
    window_bounded m w (h @ recorded evs)"
proof (induction evs arbitrary: c h tp rule: sequential.induct)
  case 1
  then show ?case by simp
next
  case (2 cl now cl' t evs)
  let ?rl = "\<lparr>max_requests = m, time_window = w, requests = filter (\<lambda>t. c - t < w) h\<rparr>"
  from "2.prems"(1) have cl: "cl' = cl" and seq: "sequential evs" by auto
  from "2.prems"(2) have tp: "tp \<le> now" by (auto split: if_splits)
  from "2.prems"(2) tp obtain rl1 d where enter: "acquire_enter ?rl now = Inr (rl1, d)"
    by (auto split: sum.splits)
  have run': "now + (case d of None \<Rightarrow> 0 | Some x \<Rightarrow> x) \<le> t \<and>
      run_interleaved (acquire_record rl1 t) [] None t evs = Some rlf"
    using "2.prems"(2) tp enter cl
    by (cases d) (auto split: if_splits)
  have h_le: "\<forall>t\<in>set h. t \<le> now" using "2.prems"(4) tp by auto
  have c_le: "c \<le> now" using "2.prems"(3) tp by simp
  note step = acquire_step[OF W M refl c_le h_le "2.prems"(5) enter conjunct1[OF run']]
  have "window_bounded m w ((h @ [t]) @ recorded evs)"
  proof (rule "2.IH"[OF seq, where c = now and tp = t])
    show "run_interleaved
       \<lparr>max_requests = m, time_window = w, requests = filter (\<lambda>ta. now - ta < w) (h @ [t])\<rparr>
       [] None t evs = Some rlf"
      using run' step by simp
    show "now \<le> t" using step tp run' enter
      by (cases d) (auto simp: acquire_enter_def Let_def split: if_splits list.splits)
    show "\<forall>ta\<in>set (h @ [t]). ta \<le> t" using step by simp
    show "window_bounded m w (h @ [t])" using step by simp
  qed
  then show ?case by simp
qed simp_all

lemma burst_run:
  "run_interleaved tmdb_rate_limiter [] None 0 burst \<noteq> None"
  by (simp add: burst_def tmdb_rate_limiter_def RateLimiter_init_def acquire_enter_def
      acquire_record_def Let_def)

text \<open>
  Claim C1, as the code has it. For a limiter created with \<^verbatim>\<open>max_requests\<close> at least 1,
  and for every run of \<^verbatim>\<open>acquire()\<close> calls in which no two calls overlap (each call records
  its timestamp before the next one starts), with a clock that never goes back and sleeps
  that last at least as long as asked: no window \<^verbatim>\<open>[a, a + time_window)\<close> contains more
  than \<^verbatim>\<open>max_requests\<close> recorded timestamps.
\<close>

theorem acquire_sequential_window_bounded:
  assumes "0 < m" and "sequential evs"
    and "run_interleaved (RateLimiter_init m w) [] None tp evs = Some rl"
  shows "window_bounded m w (recorded evs)"
proof (cases "0 < w")
  case True
  have "window_bounded m w ([] @ recorded evs)"
  proof (rule sequential_run_bounded[OF True assms(1,2), where c = tp and tp = tp])
    show "run_interleaved
       \<lparr>max_requests = m, time_window = w, requests = filter (\<lambda>t. tp - t < w) []\<rparr>
       [] None tp evs = Some rl"
      using assms(3) by (simp add: RateLimiter_init_def)
  qed (simp_all add: window_bounded_def window_count_def, use assms(1) in simp)
  then show ?thesis by simp
next
  case False
  then show ?thesis using window_bounded_nonpos[of w m] assms(1) by simp
qed

theorem acquire_sequential_window_bounded_witness:
  "0 < (1::int) \<and> sequential two_calls \<and>
   run_interleaved (RateLimiter_init 1 1) [] None 0 two_calls =
     Some \<lparr>max_requests = 1, time_window = 1, requests = [0, 1]\<rparr> \<and>
   window_bounded 1 1 (recorded two_calls)"
proof -
  have s: "sequential two_calls" by (simp add: two_calls_def)
  have r: "run_interleaved (RateLimiter_init 1 1) [] None 0 two_calls =
     Some \<lparr>max_requests = 1, time_window = 1, requests = [0, 1]\<rparr>"
    by (simp add: two_calls_def RateLimiter_init_def acquire_enter_def acquire_record_def Let_def)
  have m: "0 < (1::int)" by simp
  show ?thesis using s r acquire_sequential_window_bounded[OF m s r] by simp
qed

text \<open>
  Claim C1, as it is stated, covers overlapping callers too. On the limiter of line 59 the
  run \<^verbatim>\<open>burst\<close> is a run of the scheduler, and the window \<^verbatim>\<open>[0.1, 1.1)\<close> holds nine recorded
  timestamps: more than \<^verbatim>\<open>max_requests = 8\<close>.
\<close>

theorem acquire_interleaved_counterexample:
  "run_interleaved tmdb_rate_limiter [] None 0 burst \<noteq> None \<and>
   \<not> window_bounded (max_requests tmdb_rate_limiter) (time_window tmdb_rate_limiter) (recorded burst)"
proof
  show "run_interleaved tmdb_rate_limiter [] None 0 burst \<noteq> None" by (rule burst_run)
  have "window_count 1 (1/10) (recorded burst) = 9"
    by (simp add: window_count_def burst_def)
  then have "\<not> int (window_count 1 (1/10) (recorded burst)) \<le> 8" by simp
  then show "\<not> window_bounded (max_requests tmdb_rate_limiter) (time_window tmdb_rate_limiter) (recorded burst)"
    unfolding window_bounded_def tmdb_rate_limiter_def RateLimiter_init_def
    by (simp del: of_nat_numeral) blast
qed

section \<open>The film store and the genre taxonomy\<close>






text \<open>
  Claim C7. With a populated cache \<^verbatim>\<open>get_genres\<close> returns the cache and sends no request.
  Otherwise it sends one request; a reply of status 200 is turned into the mapping, which is
  cached and returned; when the request raises or the status is not 200, the result is the
  empty mapping and the cache stays as it was, not populated. The result is a value in every
  case: the function has no exception to pass on.
\<close>

theorem get_genres_cache_or_fetch:
  "(\<forall>g. cache = Some g \<and> g \<noteq> [] \<longrightarrow> get_genres cache greply = (g, cache, [])) \<and>
   (\<forall>body. \<not> populated cache \<and> greply = Body (200, body) \<longrightarrow>
      get_genres cache greply =
        (genres_of (case body of None \<Rightarrow> [] | Some gs \<Rightarrow> gs),
         Some (genres_of (case body of None \<Rightarrow> [] | Some gs \<Rightarrow> gs)), [GetGenres])) \<and>
   (\<not> populated cache \<and> (greply = Raised \<or> (\<exists>status body. greply = Body (status, body) \<and> status \<noteq> 200))
      \<longrightarrow> get_genres cache greply = ([], cache, [GetGenres]) \<and>
          \<not> populated (fst (snd (get_genres cache greply))))"
  by (auto simp: get_genres_def fetch_genres_def populated_def Let_def split: option.splits)

theorem get_genres_cache_or_fetch_witness:
  "get_genres (Some [(28, ''Action'')]) Raised = ([(28, ''Action'')], Some [(28, ''Action'')], []) \<and>
   get_genres None (Body (200, Some [(28, ''Action''), (18, ''Drama'')])) =
     ([(28, ''Action''), (18, ''Drama'')], Some [(28, ''Action''), (18, ''Drama'')], [GetGenres]) \<and>
   get_genres None Raised = ([], None, [GetGenres]) \<and>
   get_genres (Some []) (Body (404, None)) = ([], Some [], [GetGenres])"
  using get_genres_cache_or_fetch [of "Some [(28, ''Action'')]" Raised]
    get_genres_cache_or_fetch [of None "Body (200, Some [(28, ''Action''), (18, ''Drama'')])"]
    get_genres_cache_or_fetch [of None Raised]
    get_genres_cache_or_fetch [of "Some []" "Body (404, None)"]
  by (simp add: populated_def genres_of_def)



section \<open>Decimal numbers\<close>

text \<open>
  \<^verbatim>\<open>int(str(i)) == i\<close>, and the payload \<^verbatim>\<open>f"delete_{i}"\<close> of the button that line 503 makes
  for position \<^verbatim>\<open>i\<close> carries the index \<^verbatim>\<open>i\<close>.
\<close>

lemma digit_char_code:
  assumes "d < 10"
  shows "(of_char (digit_char d) :: nat) = 48 + d"
proof -
  from assms have "d = 0 \<or> d = 1 \<or> d = 2 \<or> d = 3 \<or> d = 4 \<or> d = 5 \<or> d = 6 \<or> d = 7 \<or>
      d = 8 \<or> d = 9" by arith
  then show ?thesis by (auto simp: digit_char_def)
qed

lemma digit_char_is_digit: "d < 10 \<Longrightarrow> is_ascii_digit (digit_char d)"
  by (simp add: is_ascii_digit_def digit_char_code)

lemma digit_char_plain:
  assumes "d < 10"
  shows "digit_char d \<noteq> CHR ''_''" and "CHR ''_'' \<noteq> digit_char d"
    and "\<not> is_space (digit_char d)"
proof -
  have "(of_char (digit_char d) :: nat) \<noteq> of_char CHR ''_''"
    using assms by (simp add: digit_char_code)
  then show "digit_char d \<noteq> CHR ''_''" by auto
  then show "CHR ''_'' \<noteq> digit_char d" by simp
  show "\<not> is_space (digit_char d)"
    using assms by (simp add: is_space_def digit_char_code)
qed

lemma str_nat_digits: "str_nat n \<noteq> [] \<and> list_all is_ascii_digit (str_nat n)"
proof (induction n rule: str_nat.induct)
  case (1 n)
  show ?case
  proof (cases "n < 10")
    case True
    then show ?thesis by (simp add: digit_char_is_digit)
  next
    case False
    then show ?thesis using 1 by (simp add: digit_char_is_digit)
  qed
qed

lemma parse_digits_str_nat:
  "parse_digits acc (str_nat n @ rest) = parse_digits (acc * 10 ^ length (str_nat n) + n) rest"
proof (induction n arbitrary: acc rest rule: str_nat.induct)
  case (1 n)
  show ?case
  proof (cases "n < 10")
    case True
    then show ?thesis by (simp add: digit_char_is_digit digit_char_code mult.commute)
  next
    case False
    have m: "n mod 10 < 10" by simp
    have "parse_digits acc (str_nat n @ rest) =
        parse_digits acc (str_nat (n div 10) @ digit_char (n mod 10) # rest)"
      using False by (subst str_nat.simps) simp
    also have "\<dots> = parse_digits (acc * 10 ^ length (str_nat (n div 10)) + n div 10)
        (digit_char (n mod 10) # rest)"
      using 1[OF False] by simp
    also have "\<dots> = parse_digits (10 * (acc * 10 ^ length (str_nat (n div 10)) + n div 10) + n mod 10) rest"
      using m by (simp add: digit_char_is_digit digit_char_code del: str_nat.simps)
    also have "10 * (acc * 10 ^ length (str_nat (n div 10)) + n div 10) + n mod 10 =
        acc * 10 ^ length (str_nat n) + n"
    proof -
      have "length (str_nat n) = Suc (length (str_nat (n div 10)))"
        using False by (subst str_nat.simps) simp
      then show ?thesis by (simp add: algebra_simps)
    qed
    finally show ?thesis .
  qed
qed

lemma parse_nat_str_nat: "parse_nat (str_nat n) = Some n"
proof -
  obtain c cs where c: "str_nat n = c # cs" using str_nat_digits[of n] by (cases "str_nat n") auto
  then have "is_ascii_digit c" using str_nat_digits[of n] by simp
  moreover have "parse_digits 0 (str_nat n) = Some n"
    using parse_digits_str_nat[of 0 n "[]"] by simp
  ultimately show ?thesis using c by (simp add: parse_nat_def del: str_nat.simps)
qed


lemma split_acc_plain:
  "sep \<notin> set s \<Longrightarrow> split_acc sep cur s = [rev cur @ s]"
  by (induction s arbitrary: cur) auto

lemma str_nat_plain: "CHR ''_'' \<notin> set (str_nat n) \<and> \<not> is_space (hd (str_nat n)) \<and> \<not> is_space (last (str_nat n))"
proof (induction n rule: str_nat.induct)
  case (1 n)
  show ?case
  proof (cases "n < 10")
    case True
    then show ?thesis by (simp add: digit_char_plain)
  next
    case False
    have m: "n mod 10 < 10" by simp
    have e: "str_nat n = str_nat (n div 10) @ [digit_char (n mod 10)]"
      using False by (subst str_nat.simps) simp
    have ne: "str_nat (n div 10) \<noteq> []" using str_nat_digits by blast
    show ?thesis using 1[OF False] digit_char_plain[OF m] ne
      by (simp add: e del: str_nat.simps)
  qed
qed

lemma dropWhile_hd: "xs \<noteq> [] \<Longrightarrow> \<not> P (hd xs) \<Longrightarrow> dropWhile P xs = xs"
  by (cases xs) auto

lemma strip_plain:
  assumes "s \<noteq> []" and "\<not> is_space (hd s)" and "\<not> is_space (last s)"
  shows "strip s = s"
proof -
  have a: "dropWhile is_space s = s" using assms(1,2) by (simp add: dropWhile_hd)
  have "rev s \<noteq> []" and "hd (rev s) = last s" using assms(1) by (simp_all add: hd_rev)
  then have b: "dropWhile is_space (rev s) = rev s"
    using assms(3) by (simp add: dropWhile_hd)
  show ?thesis by (simp add: strip_def a b)
qed

lemma py_int_str: "py_int (str i) = Some i"
proof (cases "i < 0")
  case True
  let ?n = "nat (- i)"
  have ne: "str_nat ?n \<noteq> []" using str_nat_digits by blast
  have "strip (CHR ''-'' # str_nat ?n) = CHR ''-'' # str_nat ?n"
    by (rule strip_plain) (use ne str_nat_plain[of ?n] in \<open>simp_all add: is_space_def del: str_nat.simps\<close>)
  then show ?thesis using True
    by (simp add: py_int_def str_def parse_nat_str_nat del: str_nat.simps)
next
  case False
  let ?n = "nat i"
  obtain c cs where c: "str_nat ?n = c # cs" using str_nat_digits[of ?n] by (cases "str_nat ?n") auto
  have d: "is_ascii_digit c" using str_nat_digits[of ?n] c by simp
  then have pm: "c \<noteq> CHR ''-''" "c \<noteq> CHR ''+''" by (auto simp: is_ascii_digit_def)
  have "strip (str_nat ?n) = str_nat ?n"
    by (rule strip_plain) (use str_nat_digits[of ?n] str_nat_plain[of ?n] in \<open>simp_all del: str_nat.simps\<close>)
  then have "py_int (str_nat ?n) = map_option int (parse_nat (str_nat ?n))"
    using c pm by (simp add: py_int_def del: str_nat.simps)
  then show ?thesis using False by (simp add: str_def parse_nat_str_nat del: str_nat.simps)
qed

lemma str_no_underscore: "CHR ''_'' \<notin> set (str i)"
  using str_nat_plain by (simp add: str_def del: str_nat.simps)

lemma delete_index_str: "delete_index (''delete_'' @ str i) = Some i"
proof -
  have "split (''delete_'' @ str i) CHR ''_'' = [''delete'', str i]"
    using split_acc_plain[OF str_no_underscore, of "[]" i] by (simp add: split_def)
  then show ?thesis by (simp add: delete_index_def startswith_def py_int_str)
qed

section \<open>Adding and deleting films\<close>

















section \<open>Unique ids\<close>






















section \<open>Pages of recommendations\<close>

lemma tmdb_page_ceiling: "tmdb_page_of p = \<lceil>real_of_int p / 4\<rceil>"
proof -
  have "\<lceil>real_of_int p / real_of_int 4\<rceil> = - (- p div 4)"
    by (rule ceiling_divide_eq_div)
  moreover have "(p - 1) div 4 + 1 = - (- p div 4)" by presburger
  ultimately show ?thesis by (simp add: tmdb_page_of_def)
qed

lemma offset_range: "0 \<le> tmdb_results_offset_of p \<and> tmdb_results_offset_of p \<le> 15"
proof -
  have "0 \<le> (p - 1) mod 4" and "(p - 1) mod 4 < 4" by simp_all
  then show ?thesis by (simp add: tmdb_results_offset_of_def)
qed

lemma take_min_length: "take (min k (length ys)) ys = take k ys"
  by (cases "k \<le> length ys") (simp_all add: min_def)

lemma slice_nonneg:
  assumes "0 \<le> i" and "0 \<le> k"
  shows "slice xs i (i + k) = take (nat k) (drop (nat i) xs)"
proof (cases "nat i \<le> length xs")
  case True
  have a: "slice_bound (length xs) i = nat i"
    using assms True by (simp add: slice_bound_def)
  have b: "slice_bound (length xs) (i + k) = min (nat i + nat k) (length xs)"
    using assms by (simp add: slice_bound_def nat_add_distrib)
  have "min (nat i + nat k) (length xs) - nat i = min (nat k) (length (drop (nat i) xs))"
    using True by (auto simp: min_def)
  then show ?thesis
    by (simp add: slice_def Let_def a b take_min_length del: length_drop)
next
  case False
  then have a: "slice_bound (length xs) i = length xs"
    using assms by (simp add: slice_bound_def)
  show ?thesis using False by (simp add: slice_def Let_def a)
qed

lemma page_films_of_take_drop:
  "page_films_of p user_films results =
     (if take 5 (drop (nat (tmdb_results_offset_of p))
                  (filter (\<lambda>f. cand_id f \<notin> set user_films) results)) = []
      then take 5 (drop (nat (tmdb_results_offset_of p)) results)
      else take 5 (drop (nat (tmdb_results_offset_of p))
                     (filter (\<lambda>f. cand_id f \<notin> set user_films) results)))"
proof -
  have o: "0 \<le> tmdb_results_offset_of p" using offset_range by simp
  have s: "slice xs (tmdb_results_offset_of p) (tmdb_results_offset_of p + 5) =
      take 5 (drop (nat (tmdb_results_offset_of p)) xs)" for xs :: "candidate list"
    using slice_nonneg[OF o, of 5 xs] by simp
  show ?thesis by (simp add: page_films_of_def Let_def s)
qed

lemma page_one_nonempty:
  assumes "results \<noteq> []"
  shows "page_films_of 1 user_films results \<noteq> []"
  using assms by (simp add: page_films_of_take_drop tmdb_results_offset_of_def)

lemma film_recommendations_sent:
  "\<exists>reqs. sent (fst (film_recommendations user_id film p recs greply st)) =
     GetRecommendations (film_id film) (tmdb_page_of p) # reqs"
  by (simp add: film_recommendations_def Let_def case_prod_beta split: reply.splits)

lemma film_recommendations_some:
  assumes "recs (film_id film) (tmdb_page_of p) = Body b"
    and "page_films_of p (map film_id (dict_get (load_films (data_file st)) user_id []))
           (case b of None \<Rightarrow> [] | Some rs \<Rightarrow> rs) \<noteq> []"
  shows "actions (fst (film_recommendations user_id film p recs greply st)) =
     [Answer,
      EditText (TxtRecommendations (film_title film)
         (map (rec_line (fst (get_genres (genre_cache st) greply)))
            (page_films_of p (map film_id (dict_get (load_films (data_file st)) user_id []))
               (case b of None \<Rightarrow> [] | Some rs \<Rightarrow> rs))))
        (Inline (map rec_button (enumerate
            (page_films_of p (map film_id (dict_get (load_films (data_file st)) user_id []))
               (case b of None \<Rightarrow> [] | Some rs \<Rightarrow> rs))) @ [film_nav_buttons p]))]"
  using assms by (simp add: film_recommendations_def Let_def case_prod_beta)

text \<open>
  Claim C2, as the code has it. For every page number \<^verbatim>\<open>p\<close> of the bot, the page requested
  from the service is \<^verbatim>\<open>ceil(p/4)\<close> and the offset is \<^verbatim>\<open>((p-1) mod 4) * 5\<close>. The films
  shown are the (at most 5) films from that offset on of the results that the user has not
  saved or, when there are none of those, of all the results. So page 1 over 20 results
  shows the items 0 to 4 when the user has saved none of the results, and in every case page
  1 over 20 results shows some films and not the text that there are no more.
\<close>

theorem film_page_slice:
  "tmdb_page_of p = \<lceil>real_of_int p / 4\<rceil> \<and>
   tmdb_results_offset_of p = ((p - 1) mod 4) * 5 \<and>
   (\<exists>reqs. sent (fst (film_recommendations user_id film p recs greply st)) =
      GetRecommendations (film_id film) \<lceil>real_of_int p / 4\<rceil> # reqs) \<and>
   page_films_of p user_films results =
     (if take 5 (drop (nat (((p - 1) mod 4) * 5))
                  (filter (\<lambda>f. cand_id f \<notin> set user_films) results)) = []
      then take 5 (drop (nat (((p - 1) mod 4) * 5)) results)
      else take 5 (drop (nat (((p - 1) mod 4) * 5))
                     (filter (\<lambda>f. cand_id f \<notin> set user_films) results))) \<and>
   length (page_films_of p user_films results) \<le> 5 \<and>
   (length results = 20 \<and> (\<forall>f \<in> set results. cand_id f \<notin> set user_films) \<longrightarrow>
      page_films_of 1 user_films results = take 5 results) \<and>
   (length results = 20 \<and> recs (film_id film) 1 = Body (Some results) \<longrightarrow>
      page_films_of 1 (map film_id (dict_get (load_films (data_file st)) user_id [])) results \<noteq> [] \<and>
      actions (fst (film_recommendations user_id film 1 recs greply st)) \<noteq>
        [Answer, EditText TxtNoMoreRecs close_markup])"
proof (intro conjI impI)
  show "tmdb_page_of p = \<lceil>real_of_int p / 4\<rceil>" by (rule tmdb_page_ceiling)
  show "tmdb_results_offset_of p = ((p - 1) mod 4) * 5" by (simp add: tmdb_results_offset_of_def)
  show "\<exists>reqs. sent (fst (film_recommendations user_id film p recs greply st)) =
      GetRecommendations (film_id film) \<lceil>real_of_int p / 4\<rceil> # reqs"
    using film_recommendations_sent[of user_id film p recs greply st]
    by (simp add: tmdb_page_ceiling)
  show eq: "page_films_of p user_films results =
     (if take 5 (drop (nat (((p - 1) mod 4) * 5))
                  (filter (\<lambda>f. cand_id f \<notin> set user_films) results)) = []
      then take 5 (drop (nat (((p - 1) mod 4) * 5)) results)
      else take 5 (drop (nat (((p - 1) mod 4) * 5))
                     (filter (\<lambda>f. cand_id f \<notin> set user_films) results)))"
    using page_films_of_take_drop[of p user_films results]
    by (simp add: tmdb_results_offset_of_def)
  show "length (page_films_of p user_films results) \<le> 5"
    unfolding eq by simp
next
  assume a: "length results = 20 \<and> (\<forall>f \<in> set results. cand_id f \<notin> set user_films)"
  then have "filter (\<lambda>f. cand_id f \<notin> set user_films) results = results" by simp
  then show "page_films_of 1 user_films results = take 5 results"
    by (simp add: page_films_of_take_drop tmdb_results_offset_of_def)
next
  assume a: "length results = 20 \<and> recs (film_id film) 1 = Body (Some results)"
  then have n: "results \<noteq> []" by auto
  show ne: "page_films_of 1 (map film_id (dict_get (load_films (data_file st)) user_id [])) results \<noteq> []"
    by (rule page_one_nonempty[OF n])
  have r: "recs (film_id film) (tmdb_page_of 1) = Body (Some results)"
    using a by (simp add: tmdb_page_of_def)
  show "actions (fst (film_recommendations user_id film 1 recs greply st)) \<noteq>
        [Answer, EditText TxtNoMoreRecs close_markup]"
    using film_recommendations_some[where recs = recs and film = film and p = 1
        and b = "Some results" and st = st and user_id = user_id and greply = greply] r ne
    by simp
qed

theorem film_page_slice_witness:
  "tmdb_page_of 5 = 2 \<and> tmdb_results_offset_of 5 = 0 \<and>
   tmdb_page_of 4 = 1 \<and> tmdb_results_offset_of 4 = 15 \<and>
   length twenty = 20 \<and>
   page_films_of 1 [] twenty = map numbered [1, 2, 3, 4, 5] \<and>
   page_films_of 1 (map film_id (dict_get (load_films (data_file listed)) ''7'' [])) twenty \<noteq> [] \<and>
   actions (fst (film_recommendations ''7'' (saved dune []) 1 (\<lambda>i page. Body (Some twenty))
                   genres_ok listed)) \<noteq>
     [Answer, EditText TxtNoMoreRecs close_markup]"
proof -
  have l: "length twenty = 20" by (simp add: twenty_def)
  show ?thesis
    using film_page_slice [of 5 "''7''" "saved dune []" "\<lambda>i page. Body (Some twenty)" genres_ok
        listed "[]" twenty]
      film_page_slice [of 4 "''7''" "saved dune []" "\<lambda>i page. Body (Some twenty)" genres_ok
        listed "[]" twenty] l
    by (simp add: twenty_def)
qed

text \<open>
  Claim C2 as it is stated: page 1 over 20 results would show the items 0 to 4 of the
  results. With the film of id 1 saved, page 1 over the results of ids 1 to 20 shows the
  films of ids 2 to 6, which are the items 1 to 5.
\<close>

theorem film_page_slice_counterexample:
  "length twenty = 20 \<and>
   tmdb_results_offset_of 1 = 0 \<and>
   map cand_id (page_films_of 1 [1] twenty) = [2, 3, 4, 5, 6] \<and>
   map cand_id (slice twenty 0 5) = [1, 2, 3, 4, 5] \<and>
   page_films_of 1 [1] twenty \<noteq> slice twenty 0 5"
proof -
  have a: "map cand_id (page_films_of 1 [1] twenty) = [2, 3, 4, 5, 6]"
    by (simp add: page_films_of_def twenty_def numbered_def slice_def slice_bound_def
        tmdb_results_offset_of_def Let_def)
  have b: "map cand_id (slice twenty 0 5) = [1, 2, 3, 4, 5]"
    by (simp add: twenty_def numbered_def slice_def slice_bound_def Let_def)
  have "map cand_id (page_films_of 1 [1] twenty) \<noteq> map cand_id (slice twenty 0 5)"
    unfolding a b by simp
  then have c: "page_films_of 1 [1] twenty \<noteq> slice twenty 0 5" by auto
  show ?thesis using a b c by (simp add: twenty_def tmdb_results_offset_of_def)
qed

section \<open>The title of a film and the router\<close>




lemma route_by_precedence_unfold:
  "route_by_precedence data ud =
     (if delete_related data then To_list_delete_film
      else if mode_choice data then To_recommend_choose
      else if film_recommendation_payload ud data then To_recommend_film_pick
      else if genre_recommendation_payload ud data then To_recommend_genre_pick
      else if add_pick_payload ud data then To_add_choice
      else Answered session_expired)"
  by (simp add: route_by_precedence_def precedence_def)

lemma universal_callback_handler_unfold:
  "universal_callback_handler data ud =
     (if delete_related data then To_list_delete_film
      else if mode_choice data then To_recommend_choose
      else if film_recommendation_payload ud data then To_recommend_film_pick
      else if genre_recommendation_payload ud data then To_recommend_genre_pick
      else if add_pick_payload ud data then To_add_choice
      else Answered session_expired)"
  unfolding universal_callback_handler_def delete_related_def mode_choice_def
    film_recommendation_payload_def genre_recommendation_payload_def add_pick_payload_def
    session_expired_def
  by auto

text \<open>
  Claim C9. The router sends a payload to the first group, in the order delete-related,
  choice of the mode, recommendations by film (a prefix, or digits with a pending list of
  films), recommendations by genre (a prefix, or digits with a pending genre), pick of a
  search result (digits with pending search results), that the payload belongs to. A
  payload of no group is answered with the text that the session has expired and ends the
  conversation: the router returns a value in every case.
\<close>

theorem universal_callback_handler_precedence:
  "universal_callback_handler data ud = route_by_precedence data ud \<and>
   (delete_related data \<longrightarrow> universal_callback_handler data ud = To_list_delete_film) \<and>
   (\<not> delete_related data \<and> mode_choice data \<longrightarrow>
      universal_callback_handler data ud = To_recommend_choose) \<and>
   (\<not> delete_related data \<and> \<not> mode_choice data \<and> film_recommendation_payload ud data \<longrightarrow>
      universal_callback_handler data ud = To_recommend_film_pick) \<and>
   (\<not> delete_related data \<and> \<not> mode_choice data \<and> \<not> film_recommendation_payload ud data \<and>
    genre_recommendation_payload ud data \<longrightarrow>
      universal_callback_handler data ud = To_recommend_genre_pick) \<and>
   (\<not> delete_related data \<and> \<not> mode_choice data \<and> \<not> film_recommendation_payload ud data \<and>
    \<not> genre_recommendation_payload ud data \<and> add_pick_payload ud data \<longrightarrow>
      universal_callback_handler data ud = To_add_choice) \<and>
   (\<not> delete_related data \<and> \<not> mode_choice data \<and> \<not> film_recommendation_payload ud data \<and>
    \<not> genre_recommendation_payload ud data \<and> \<not> add_pick_payload ud data \<longrightarrow>
      universal_callback_handler data ud =
        Answered \<lparr>actions = [Answer, EditText TxtSessionExpired NoMarkup],
                   next_state = Some END, sent = []\<rparr>)"
  by (simp add: universal_callback_handler_unfold route_by_precedence_unfold session_expired_def)

theorem universal_callback_handler_precedence_witness:
  "universal_callback_handler ''delete_0'' no_session = To_list_delete_film \<and>
   universal_callback_handler ''by_genre'' no_session = To_recommend_choose \<and>
   universal_callback_handler ''3''
     (no_session\<lparr>ud_add_results := Some [dune], ud_recommend_films := Some three_films\<rparr>) =
     To_recommend_film_pick \<and>
   universal_callback_handler ''3''
     (no_session\<lparr>ud_add_results := Some [dune], ud_recommend_genre_id := Some 12\<rparr>) =
     To_recommend_genre_pick \<and>
   universal_callback_handler ''3'' (no_session\<lparr>ud_add_results := Some [dune]\<rparr>) = To_add_choice \<and>
   universal_callback_handler ''3'' no_session =
     Answered \<lparr>actions = [Answer, EditText TxtSessionExpired NoMarkup],
                next_state = Some END, sent = []\<rparr>"
  using universal_callback_handler_precedence [of "''delete_0''" no_session]
    universal_callback_handler_precedence [of "''by_genre''" no_session]
    universal_callback_handler_precedence [of "''3''"
      "no_session\<lparr>ud_add_results := Some [dune], ud_recommend_films := Some three_films\<rparr>"]
    universal_callback_handler_precedence [of "''3''"
      "no_session\<lparr>ud_add_results := Some [dune], ud_recommend_genre_id := Some 12\<rparr>"]
    universal_callback_handler_precedence [of "''3''" "no_session\<lparr>ud_add_results := Some [dune]\<rparr>"]
    universal_callback_handler_precedence [of "''3''" no_session]
  by (simp add: route_by_precedence_unfold session_expired_def delete_related_def mode_choice_def
      film_recommendation_payload_def genre_recommendation_payload_def add_pick_payload_def
      startswith_def isdigit_def is_ascii_digit_def no_session_def)

end
